theory Spec2Isabelle
  imports Main "HOL-Library.Word"
begin

unbundle bit_operations_syntax

section \<open>Data model of \<^verbatim>\<open>i2c_slave.c\<close>\<close>

type_synonym u8 = "8 word"
type_synonym u16 = "16 word"
type_synonym c_int = "32 word"

text \<open>\<^verbatim>\<open>enum SLAVE_MODE_T\<close>; the first enumerator has the value 0.\<close>

datatype SLAVE_MODE_T = MODE_RECEIVING | MODE_TRANSMITTING | MODE_LISTENING

definition BUFFER_SIZE :: nat where
  "BUFFER_SIZE = 5"

definition GET_VOLTAGE_REG :: u8 where
  "GET_VOLTAGE_REG = 0x08"

definition SET_VOLTAGE_REG :: u8 where
  "SET_VOLTAGE_REG = 0x09"

text \<open>
  Modelled from the spec: the transfer directions and the frame options. The header
  that defines \<^verbatim>\<open>I2C_DIRECTION_RECEIVE\<close>, \<^verbatim>\<open>I2C_NEXT_FRAME\<close> and \<^verbatim>\<open>I2C_LAST_FRAME\<close> is
  not among the sources. \<^verbatim>\<open>HAL_I2C_AddrCallback\<close> only tests its argument for equality
  with \<^verbatim>\<open>I2C_DIRECTION_RECEIVE\<close>, so the direction is a type of two values, as the spec
  has it: \<^verbatim>\<open>I2C_DIRECTION_RECEIVE\<close> is the controller reading from us,
  \<^verbatim>\<open>I2C_DIRECTION_TRANSMIT\<close> the controller writing to us. A frame is final
  (\<^verbatim>\<open>I2C_LAST_FRAME\<close>) or not (\<^verbatim>\<open>I2C_NEXT_FRAME\<close>).
\<close>

datatype direction = I2C_DIRECTION_TRANSMIT | I2C_DIRECTION_RECEIVE

datatype xfer_option = I2C_NEXT_FRAME | I2C_LAST_FRAME

text \<open>
  A call of one of the three bus operations the callbacks invoke. A transmit call is
  recorded with the bytes it hands over (the first \<^verbatim>\<open>Size\<close> bytes of \<^verbatim>\<open>txBuff\<close>), a
  receive call with the offset of its target pointer from \<^verbatim>\<open>rxBuff\<close> and its size.
\<close>

datatype hal_call =
    Call_EnableListen_IT
  | Call_Slave_Seq_Transmit_IT "u8 list" xfer_option
  | Call_Slave_Seq_Receive_IT nat nat xfer_option

text \<open>
  The file's globals, and the part of the peripheral the callbacks drive:
  \<^item> \<open>hal_calls\<close>: the HAL operations invoked so far, oldest first;
  \<^item> \<open>rx_target\<close>: the offset from \<^verbatim>\<open>rxBuff\<close> at which the pending one-byte reception
    stores its byte (\<open>None\<close>: no reception pending).
\<close>

record slave =
  slaveMode :: SLAVE_MODE_T
  rxBuff :: "u8 list"
  rxBuffDataSize :: u8
  txBuff :: "u8 list"
  txBuffDataSize :: u8
  requestedReg :: u8
  fakeVoltage :: u16
  hal_calls :: "hal_call list"
  rx_target :: "nat option"

text \<open>The state C's static initialisation leaves: everything zero.\<close>

definition power_on :: slave where
  "power_on = \<lparr> slaveMode = MODE_RECEIVING,
                rxBuff = replicate BUFFER_SIZE 0, rxBuffDataSize = 0,
                txBuff = replicate BUFFER_SIZE 0, txBuffDataSize = 0,
                requestedReg = 0, fakeVoltage = 0,
                hal_calls = [], rx_target = None \<rparr>"

section \<open>The bus operations\<close>

text \<open>
  Modelled from the spec: the three operations of the bus port, \<^verbatim>\<open>rearmListen()\<close>,
  \<^verbatim>\<open>beginTransmit(buffer, count, isFinal)\<close> and \<^verbatim>\<open>beginReceive(buffer, offset, count,
  isFinal)\<close>. Their code (the vendor's driver) is not among the sources. Each call is
  appended to the log; a receive call also makes its target the pending reception.
\<close>

definition HAL_I2C_EnableListen_IT :: "slave \<Rightarrow> slave" where
  "HAL_I2C_EnableListen_IT s = s\<lparr> hal_calls := hal_calls s @ [Call_EnableListen_IT] \<rparr>"

definition HAL_I2C_Slave_Seq_Transmit_IT :: "slave \<Rightarrow> u8 list \<Rightarrow> u8 \<Rightarrow> xfer_option \<Rightarrow> slave" where
  "HAL_I2C_Slave_Seq_Transmit_IT s buf n opt =
     s\<lparr> hal_calls := hal_calls s @ [Call_Slave_Seq_Transmit_IT (take (unat n) buf) opt] \<rparr>"

definition HAL_I2C_Slave_Seq_Receive_IT :: "slave \<Rightarrow> nat \<Rightarrow> nat \<Rightarrow> xfer_option \<Rightarrow> slave" where
  "HAL_I2C_Slave_Seq_Receive_IT s off n opt =
     s\<lparr> hal_calls := hal_calls s @ [Call_Slave_Seq_Receive_IT off n opt],
        rx_target := Some off \<rparr>"

section \<open>The functions of \<^verbatim>\<open>i2c_slave.c\<close>\<close>

text \<open>The \<^verbatim>\<open>printf\<close> calls (and the loop that only prints) are left out.\<close>

definition I2C_SLAVE_Init :: "slave \<Rightarrow> slave" where
  "I2C_SLAVE_Init s =
     (HAL_I2C_EnableListen_IT s)\<lparr> requestedReg := 0, fakeVoltage := 3542, slaveMode := MODE_LISTENING \<rparr>"

text \<open>
  \<^verbatim>\<open>txBuff[0] = fakeVoltage >> 8; txBuff[1] = fakeVoltage & 0xFF;\<close> the operand is
  promoted to \<^verbatim>\<open>int\<close> and the result truncated to a byte.
\<close>

definition HAL_I2C_AddrCallback :: "slave \<Rightarrow> direction \<Rightarrow> slave" where
  "HAL_I2C_AddrCallback s TransferDirection =
     (if TransferDirection = I2C_DIRECTION_RECEIVE then
        let s1 = s\<lparr> slaveMode := MODE_TRANSMITTING \<rparr>;
            s2 = (if requestedReg s1 = GET_VOLTAGE_REG then
                    s1\<lparr> txBuff := (txBuff s1)
                           [0 := ucast (drop_bit 8 (ucast (fakeVoltage s1) :: c_int)),
                            1 := ucast ((ucast (fakeVoltage s1) :: c_int) AND 0xFF)],
                        txBuffDataSize := 2 \<rparr>
                  else
                    s1\<lparr> txBuff := (txBuff s1)[0 := 0xFF, 1 := 0xFF],
                        txBuffDataSize := 2 \<rparr>);
            s3 = HAL_I2C_Slave_Seq_Transmit_IT s2 (txBuff s2) (txBuffDataSize s2) I2C_LAST_FRAME
        in s3\<lparr> requestedReg := 0 \<rparr>
      else
        HAL_I2C_Slave_Seq_Receive_IT (s\<lparr> slaveMode := MODE_RECEIVING \<rparr>)
          (unat (rxBuffDataSize s)) 1 I2C_NEXT_FRAME)"

text \<open>
  \<^verbatim>\<open>fakeVoltage = (rxBuff[1] << 8 | rxBuff[2] & 0xFF);\<close> \<^verbatim>\<open>&\<close> binds tighter than
  \<^verbatim>\<open>|\<close>, the operands are promoted to \<^verbatim>\<open>int\<close>, the result is truncated to 16 bits.
\<close>

definition HAL_I2C_ListenCpltCallback :: "slave \<Rightarrow> slave" where
  "HAL_I2C_ListenCpltCallback s =
     (let s1 = s\<lparr> slaveMode := MODE_LISTENING \<rparr>;
          s2 = (if rxBuffDataSize s1 = 1 then
                  s1\<lparr> requestedReg := rxBuff s1 ! 0 \<rparr>
                else if rxBuffDataSize s1 > 1 then
                  s1\<lparr> requestedReg := rxBuff s1 ! 0,
                      fakeVoltage :=
                        ucast (push_bit 8 (ucast (rxBuff s1 ! 1) :: c_int)
                               OR ((ucast (rxBuff s1 ! 2) :: c_int) AND 0xFF)) \<rparr>
                else s1);
          s3 = s2\<lparr> rxBuff := replicate BUFFER_SIZE 0, rxBuffDataSize := 0 \<rparr>
      in HAL_I2C_EnableListen_IT s3)"

text \<open>The bound check of the source is inside a comment: the count is always incremented.\<close>

definition HAL_I2C_SlaveRxCpltCallback :: "slave \<Rightarrow> slave" where
  "HAL_I2C_SlaveRxCpltCallback s =
     (let s1 = s\<lparr> rxBuffDataSize := rxBuffDataSize s + 1 \<rparr>
      in if slaveMode s1 = MODE_RECEIVING then
           HAL_I2C_Slave_Seq_Receive_IT s1 (unat (rxBuffDataSize s1)) 1 I2C_NEXT_FRAME
         else s1)"

definition HAL_I2C_SlaveTxCpltCallback :: "slave \<Rightarrow> slave" where
  "HAL_I2C_SlaveTxCpltCallback s = s\<lparr> txBuffDataSize := 0 \<rparr>"

definition HAL_I2C_ErrorCallback :: "slave \<Rightarrow> slave" where
  "HAL_I2C_ErrorCallback s = HAL_I2C_EnableListen_IT s"

section \<open>The peripheral: events and runs\<close>

text \<open>
  A store outside \<^verbatim>\<open>rxBuff\<close>, with its offset and the byte. It is undefined behaviour in
  C: what the byte overwrites, and what the program does from there on, depends on the
  memory layout. The model stops there and describes no later state.
\<close>

datatype fault = StoreOutOfBounds nat u8

text \<open>
  Modelled from the spec: the five events the bus port raises, and what the peripheral
  does before it runs the callback of each. A received byte is stored at the target of
  the pending reception (the spec: the byte has landed in the inbound buffer at position
  \<open>count\<close>): inside \<^verbatim>\<open>rxBuff\<close> when the offset is below \<^verbatim>\<open>BUFFER_SIZE\<close>, a fault
  otherwise. With no reception pending no byte is taken and no callback runs. A stop
  condition and a bus error end the transfer, and with it the pending reception.
\<close>

datatype event =
    AddressMatched direction
  | ByteReceived u8
  | TransferComplete
  | ListenComplete
  | Error

definition store_byte :: "slave \<Rightarrow> nat \<Rightarrow> u8 \<Rightarrow> fault + slave" where
  "store_byte s off b =
     (if off < BUFFER_SIZE then Inr (s\<lparr> rxBuff := (rxBuff s)[off := b] \<rparr>)
      else Inl (StoreOutOfBounds off b))"

fun step :: "slave \<Rightarrow> event \<Rightarrow> fault + slave" where
  "step s (AddressMatched d) = Inr (HAL_I2C_AddrCallback s d)"
| "step s (ByteReceived b) =
     (case rx_target s of
        None \<Rightarrow> Inr s
      | Some off \<Rightarrow>
          (case store_byte s off b of
             Inl f \<Rightarrow> Inl f
           | Inr s' \<Rightarrow> Inr (HAL_I2C_SlaveRxCpltCallback (s'\<lparr> rx_target := None \<rparr>))))"
| "step s TransferComplete = Inr (HAL_I2C_SlaveTxCpltCallback s)"
| "step s ListenComplete = Inr (HAL_I2C_ListenCpltCallback (s\<lparr> rx_target := None \<rparr>))"
| "step s Error = Inr (HAL_I2C_ErrorCallback (s\<lparr> rx_target := None \<rparr>))"

text \<open>A run stops at the first fault.\<close>

fun run :: "slave \<Rightarrow> event list \<Rightarrow> fault + slave" where
  "run s [] = Inr s"
| "run s (e # es) = (case step s e of Inl f \<Rightarrow> Inl f | Inr s' \<Rightarrow> run s' es)"

text \<open>What a variable holds after a run; \<open>None\<close> when the run has ended in a fault.\<close>

definition seen :: "(slave \<Rightarrow> 'a) \<Rightarrow> fault + slave \<Rightarrow> 'a option" where
  "seen var r = (case r of Inl f \<Rightarrow> None | Inr s \<Rightarrow> Some (var s))"

definition boot :: slave where
  "boot = I2C_SLAVE_Init power_on"

text \<open>
  The transactions of the file's header comment. A write: address match for writing, one
  \<^verbatim>\<open>RxCpltCallback\<close> per data byte, stop. A register read: a one-byte write selecting the
  register, then address match for reading, \<^verbatim>\<open>TxCpltCallback\<close>, stop.
\<close>

definition write_transaction :: "u8 list \<Rightarrow> event list" where
  "write_transaction bs = AddressMatched I2C_DIRECTION_TRANSMIT # map ByteReceived bs @ [ListenComplete]"

definition read_phase :: "event list" where
  "read_phase = [AddressMatched I2C_DIRECTION_RECEIVE, TransferComplete, ListenComplete]"

definition GET_transaction :: "u8 \<Rightarrow> event list" where
  "GET_transaction r = write_transaction [r] @ read_phase"

definition hi_byte :: "u16 \<Rightarrow> u8" where
  "hi_byte v = ucast (drop_bit 8 v)"

definition lo_byte :: "u16 \<Rightarrow> u8" where
  "lo_byte v = ucast (v AND 0xFF)"

definition SET_transaction :: "u16 \<Rightarrow> event list" where
  "SET_transaction v = write_transaction [SET_VOLTAGE_REG, hi_byte v, lo_byte v]"

text \<open>
  A write that a bus error cuts short: address match for writing, the bytes received so
  far, then the error instead of the stop condition.
\<close>

definition aborted_write :: "u8 list \<Rightarrow> event list" where
  "aborted_write bs = AddressMatched I2C_DIRECTION_TRANSMIT # map ByteReceived bs @ [Error]"

text \<open>The frames handed to the transmit operation, oldest first.\<close>

fun transmitted :: "hal_call list \<Rightarrow> u8 list list" where
  "transmitted [] = []"
| "transmitted (Call_Slave_Seq_Transmit_IT bs opt # cs) = bs # transmitted cs"
| "transmitted (c # cs) = transmitted cs"

definition sent :: "slave \<Rightarrow> u8 list list" where
  "sent s = transmitted (hal_calls s)"

text \<open>Big-endian decoding of two bytes, as arithmetic.\<close>

definition be16 :: "u8 \<Rightarrow> u8 \<Rightarrow> u16" where
  "be16 hi lo = of_nat (unat hi * 256 + unat lo)"

text \<open>
  The arrays have their declared size; a state is idle at a transaction boundary: the
  inbound buffer is empty and cleared, as static initialisation and every
  \<^verbatim>\<open>HAL_I2C_ListenCpltCallback\<close> leave it.
\<close>

definition sized :: "slave \<Rightarrow> bool" where
  "sized s \<longleftrightarrow> length (rxBuff s) = BUFFER_SIZE \<and> length (txBuff s) = BUFFER_SIZE"

definition idle :: "slave \<Rightarrow> bool" where
  "idle s \<longleftrightarrow> sized s \<and> rxBuffDataSize s = 0 \<and> rxBuff s = replicate BUFFER_SIZE 0"

text \<open>The byte in slot \<open>i\<close> of a transaction's bytes, 0 when the transaction is shorter.\<close>

definition slot :: "u8 list \<Rightarrow> nat \<Rightarrow> u8" where
  "slot bs i = (if i < length bs then bs ! i else 0)"

section \<open>Bytes and 16-bit values\<close>

lemma ff_mask: "(0xFF :: 'a::len word) = mask 8"
  by (simp add: mask_eq_exp_minus_1)

lemma decode_bits:
  "(ucast (push_bit 8 (ucast (a::u8) :: c_int) OR ((ucast (b::u8) :: c_int) AND 0xFF)) :: u16)
     = push_bit 8 (ucast a) OR ucast b"
  unfolding ff_mask
  by (rule bit_word_eqI) (auto simp: bit_simps dest: bit_imp_le_length)

text \<open>The expression of the source computes the big-endian value of the two bytes.\<close>

lemma decode_be16:
  "(ucast (push_bit 8 (ucast (a::u8) :: c_int) OR ((ucast (b::u8) :: c_int) AND 0xFF)) :: u16)
     = be16 a b"
proof -
  have "(push_bit 8 (ucast a) OR ucast b :: u16) = push_bit 8 (ucast a) + ucast b"
    by (rule disjunctive_add_eq_or [symmetric])
       (rule bit_word_eqI, auto simp: bit_simps dest: bit_imp_le_length)
  also have "\<dots> = be16 a b"
    by (simp add: be16_def push_bit_eq_mult)
  finally show ?thesis by (simp add: decode_bits)
qed

lemma be16_hi_lo: "be16 (hi_byte v) (lo_byte v) = v"
  unfolding hi_byte_def lo_byte_def decode_be16 [symmetric] ff_mask
  by (rule bit_word_eqI) (auto simp: bit_simps)

lemma hi_byte_be16: "hi_byte (be16 a b) = a"
  unfolding hi_byte_def decode_be16 [symmetric] decode_bits
  by (rule bit_word_eqI) (auto simp: bit_simps dest: bit_imp_le_length)

lemma lo_byte_be16: "lo_byte (be16 a b) = b"
  unfolding lo_byte_def decode_be16 [symmetric] decode_bits ff_mask
  by (rule bit_word_eqI) (auto simp: bit_simps dest: bit_imp_le_length)

lemma tx_hi: "(ucast (drop_bit 8 (ucast (v::u16) :: c_int)) :: u8) = hi_byte v"
  unfolding hi_byte_def
  by (rule bit_word_eqI) (auto simp: bit_simps dest: bit_imp_le_length)

lemma tx_lo: "(ucast ((ucast (v::u16) :: c_int) AND 0xFF) :: u8) = lo_byte v"
  unfolding lo_byte_def ff_mask
  by (rule bit_word_eqI) (auto simp: bit_simps dest: bit_imp_le_length)

section \<open>Runs\<close>

lemma run_append:
  "run s (es @ fs) = (case run s es of Inl f \<Rightarrow> Inl f | Inr s' \<Rightarrow> run s' fs)"
  by (induction es arbitrary: s) (simp_all split: sum.split)

lemma run_append_Inr: "run s es = Inr s' \<Longrightarrow> run s (es @ fs) = run s' fs"
  by (simp add: run_append)

lemma run_append_Inl: "run s es = Inl f \<Longrightarrow> run s (es @ fs) = Inl f"
  by (simp add: run_append)

lemma run_snoc: "run s es = Inr s' \<Longrightarrow> run s (es @ [e]) = step s' e"
  by (simp add: run_append split: sum.split)

lemma transmitted_append [simp]: "transmitted (cs @ ds) = transmitted cs @ transmitted ds"
  by (induction cs rule: transmitted.induct) simp_all

lemma transmitted_receives [simp]:
  "transmitted (map (\<lambda>i. Call_Slave_Seq_Receive_IT i n opt) is) = []"
  by (induction "is") simp_all

lemma sized_boot: "sized boot"
  by (simp add: sized_def boot_def power_on_def I2C_SLAVE_Init_def HAL_I2C_EnableListen_IT_def)

lemma idle_boot: "idle boot"
  by (simp add: idle_def sized_def boot_def power_on_def I2C_SLAVE_Init_def HAL_I2C_EnableListen_IT_def)

lemma idle_sized: "idle s \<Longrightarrow> sized s"
  by (simp add: idle_def)

text \<open>Every event keeps the arrays at their declared size, so every run from power-on does.\<close>

lemma sized_step: "sized s \<Longrightarrow> step s e = Inr s' \<Longrightarrow> sized s'"
  by (cases e)
     (auto simp: sized_def HAL_I2C_AddrCallback_def HAL_I2C_ListenCpltCallback_def
        HAL_I2C_SlaveRxCpltCallback_def HAL_I2C_SlaveTxCpltCallback_def HAL_I2C_ErrorCallback_def
        HAL_I2C_EnableListen_IT_def HAL_I2C_Slave_Seq_Transmit_IT_def
        HAL_I2C_Slave_Seq_Receive_IT_def store_byte_def Let_def
        split: option.splits if_splits)

lemma sized_run: "sized s \<Longrightarrow> run s evs = Inr s' \<Longrightarrow> sized s'"
proof (induction evs arbitrary: s)
  case Nil
  then show ?case by simp
next
  case (Cons e evs)
  from Cons.prems(2) obtain t where t: "step s e = Inr t" and r: "run t evs = Inr s'"
    by (auto split: sum.splits)
  from Cons.prems(1) t have "sized t" by (rule sized_step)
  then show ?case using r by (rule Cons.IH)
qed

lemma sized_reachable: "run boot evs = Inr s \<Longrightarrow> sized s"
  by (rule sized_run [OF sized_boot])

section \<open>The stop condition\<close>

text \<open>What \<^verbatim>\<open>HAL_I2C_ListenCpltCallback\<close> does to each variable, in every state.\<close>

lemma Listen_mode: "slaveMode (HAL_I2C_ListenCpltCallback s) = MODE_LISTENING"
  by (simp add: HAL_I2C_ListenCpltCallback_def HAL_I2C_EnableListen_IT_def Let_def)

lemma Listen_rx:
  "rxBuffDataSize (HAL_I2C_ListenCpltCallback s) = 0"
  "rxBuff (HAL_I2C_ListenCpltCallback s) = replicate BUFFER_SIZE 0"
  by (simp_all add: HAL_I2C_ListenCpltCallback_def HAL_I2C_EnableListen_IT_def Let_def)

lemma Listen_tx:
  "txBuffDataSize (HAL_I2C_ListenCpltCallback s) = txBuffDataSize s"
  "txBuff (HAL_I2C_ListenCpltCallback s) = txBuff s"
  by (simp_all add: HAL_I2C_ListenCpltCallback_def HAL_I2C_EnableListen_IT_def Let_def)

lemma Listen_calls:
  "hal_calls (HAL_I2C_ListenCpltCallback s) = hal_calls s @ [Call_EnableListen_IT]"
  by (simp add: HAL_I2C_ListenCpltCallback_def HAL_I2C_EnableListen_IT_def Let_def)

lemma Listen_sent: "sent (HAL_I2C_ListenCpltCallback s) = sent s"
  by (simp add: sent_def Listen_calls)

lemma Listen_requestedReg:
  "requestedReg (HAL_I2C_ListenCpltCallback s) =
     (if rxBuffDataSize s = 0 then requestedReg s else rxBuff s ! 0)"
proof -
  have "x \<noteq> 0 \<Longrightarrow> x \<noteq> 1 \<Longrightarrow> 1 < x" for x :: u8
    by (simp add: word_less_nat_alt word_unat_eq_iff)
  then show ?thesis
    by (auto simp: HAL_I2C_ListenCpltCallback_def HAL_I2C_EnableListen_IT_def Let_def)
qed

lemma Listen_fakeVoltage:
  "fakeVoltage (HAL_I2C_ListenCpltCallback s) =
     (if 1 < rxBuffDataSize s then be16 (rxBuff s ! 1) (rxBuff s ! 2) else fakeVoltage s)"
  by (auto simp: HAL_I2C_ListenCpltCallback_def HAL_I2C_EnableListen_IT_def Let_def decode_be16)

text \<open>The stop condition leaves an idle state, whatever the state before it.\<close>

lemma Listen_idle: "length (txBuff s) = BUFFER_SIZE \<Longrightarrow> idle (HAL_I2C_ListenCpltCallback s)"
  by (simp add: idle_def sized_def Listen_rx Listen_tx)

lemma stop_idle: "sized s \<Longrightarrow> step s ListenComplete = Inr s' \<Longrightarrow> idle s'"
  using Listen_idle [of "s\<lparr> rx_target := None \<rparr>"] by (auto simp: sized_def)

section \<open>Receiving the bytes of a write\<close>

lemma unat_small: "n \<le> BUFFER_SIZE \<Longrightarrow> unat (of_nat n :: u8) = n"
  by (simp add: BUFFER_SIZE_def unat_of_nat)

lemma unat_small_Suc: "n < BUFFER_SIZE \<Longrightarrow> unat (of_nat n + 1 :: u8) = Suc n"
  using unat_small [of "Suc n"] by (simp add: add.commute)

lemma fill_slot:
  "n < BUFFER_SIZE \<Longrightarrow> length bs = n \<Longrightarrow>
   (bs @ replicate (BUFFER_SIZE - n) 0)[n := b] = (bs @ [b]) @ replicate (BUFFER_SIZE - Suc n) (0::u8)"
  by (cases "BUFFER_SIZE - n") (auto simp: list_update_append)

text \<open>
  From an idle state, the address match and the bytes of a write that fits the buffer
  leave the bytes in \<^verbatim>\<open>rxBuff\<close> in order, zeros behind them, the count at their number
  and a reception pending at that offset.
\<close>

lemma receive_bytes:
  assumes "idle s"
  shows "length bs \<le> BUFFER_SIZE \<Longrightarrow>
    run s (AddressMatched I2C_DIRECTION_TRANSMIT # map ByteReceived bs) =
      Inr (s\<lparr> slaveMode := MODE_RECEIVING,
         rxBuff := bs @ replicate (BUFFER_SIZE - length bs) 0,
         rxBuffDataSize := of_nat (length bs),
         hal_calls := hal_calls s @
           map (\<lambda>i. Call_Slave_Seq_Receive_IT i 1 I2C_NEXT_FRAME) [0..<Suc (length bs)],
         rx_target := Some (length bs) \<rparr>)"
proof (induction bs rule: rev_induct)
  case Nil
  from assms show ?case
    by (simp add: idle_def HAL_I2C_AddrCallback_def HAL_I2C_Slave_Seq_Receive_IT_def)
next
  case (snoc b bs)
  then have len: "length bs < BUFFER_SIZE" by simp
  then have le: "length bs \<le> BUFFER_SIZE" by simp
  have split: "AddressMatched I2C_DIRECTION_TRANSMIT # map ByteReceived (bs @ [b])
      = (AddressMatched I2C_DIRECTION_TRANSMIT # map ByteReceived bs) @ [ByteReceived b]"
    by simp
  show ?case
    unfolding split run_snoc [OF snoc.IH [OF le]]
    using len
    by (simp add: HAL_I2C_SlaveRxCpltCallback_def HAL_I2C_Slave_Seq_Receive_IT_def store_byte_def
        fill_slot unat_small unat_small_Suc)
qed

text \<open>One byte more than the buffer holds is stored outside it.\<close>

lemma receive_overflow:
  assumes "idle s" and "length bs = BUFFER_SIZE"
  shows "run s (AddressMatched I2C_DIRECTION_TRANSMIT # map ByteReceived (bs @ b # cs) @ es)
           = Inl (StoreOutOfBounds BUFFER_SIZE b)"
proof -
  have le: "length bs \<le> BUFFER_SIZE" using assms(2) by simp
  have split: "AddressMatched I2C_DIRECTION_TRANSMIT # map ByteReceived (bs @ b # cs) @ es
      = ((AddressMatched I2C_DIRECTION_TRANSMIT # map ByteReceived bs) @ [ByteReceived b])
          @ (map ByteReceived cs @ es)"
    by simp
  have "run s ((AddressMatched I2C_DIRECTION_TRANSMIT # map ByteReceived bs) @ [ByteReceived b])
      = Inl (StoreOutOfBounds BUFFER_SIZE b)"
    unfolding run_snoc [OF receive_bytes [OF assms(1) le]]
    using assms(2) by (simp add: store_byte_def)
  then show ?thesis
    unfolding split by (rule run_append_Inl)
qed

lemma small_count_gt_1: "n \<le> BUFFER_SIZE \<Longrightarrow> 1 < (of_nat n :: u8) \<longleftrightarrow> 1 < n"
  by (simp add: word_less_nat_alt unat_small)

lemma small_count_eq_0: "n \<le> BUFFER_SIZE \<Longrightarrow> (of_nat n :: u8) = 0 \<longleftrightarrow> n = 0"
  using unat_small [of n] by (auto simp: word_unat_eq_iff)

text \<open>
  A completed write that starts in an idle state and fits the buffer: it runs without a
  fault, leaves an idle state, selects its first byte (when it has one), stores the
  big-endian value of its second and third bytes (when it has two or more; the cleared
  slot stands for a third byte that was not sent), and transmits nothing.
\<close>

lemma write_transaction_result:
  assumes "idle s" and "length bs \<le> BUFFER_SIZE"
  obtains s' where "run s (write_transaction bs) = Inr s'"
    and "idle s'"
    and "requestedReg s' = (if bs = [] then requestedReg s else bs ! 0)"
    and "fakeVoltage s' = (if 1 < length bs then be16 (bs ! 1) (slot bs 2) else fakeVoltage s)"
    and "sent s' = sent s"
proof -
  let ?r = "s\<lparr> slaveMode := MODE_RECEIVING,
         rxBuff := bs @ replicate (BUFFER_SIZE - length bs) 0,
         rxBuffDataSize := of_nat (length bs),
         hal_calls := hal_calls s @
           map (\<lambda>i. Call_Slave_Seq_Receive_IT i 1 I2C_NEXT_FRAME) [0..<Suc (length bs)],
         rx_target := Some (length bs) \<rparr>"
  let ?s' = "HAL_I2C_ListenCpltCallback (?r\<lparr> rx_target := None \<rparr>)"
  have split: "write_transaction bs
      = (AddressMatched I2C_DIRECTION_TRANSMIT # map ByteReceived bs) @ [ListenComplete]"
    by (simp add: write_transaction_def)
  have run: "run s (write_transaction bs) = Inr ?s'"
    unfolding split run_snoc [OF receive_bytes [OF assms]] by simp
  have "length (txBuff (?r\<lparr> rx_target := None \<rparr>)) = BUFFER_SIZE"
    using assms(1) by (simp add: idle_def sized_def)
  then have idle: "idle ?s'"
    by (rule Listen_idle)
  have zero: "(of_nat (length bs) :: u8) = 0 \<longleftrightarrow> bs = []"
    using small_count_eq_0 [OF assms(2)] by simp
  have first: "bs \<noteq> [] \<Longrightarrow> (bs @ replicate (BUFFER_SIZE - length bs) 0) ! 0 = bs ! 0"
    by (simp add: nth_append)
  have reg: "requestedReg ?s' = (if bs = [] then requestedReg s else bs ! 0)"
    unfolding Listen_requestedReg by (simp add: zero first)
  have one: "1 < length bs \<Longrightarrow> (bs @ replicate (BUFFER_SIZE - length bs) 0) ! Suc 0 = bs ! Suc 0"
    by (simp add: nth_append)
  have two: "1 < length bs \<Longrightarrow> (bs @ replicate (BUFFER_SIZE - length bs) 0) ! 2 = slot bs 2"
    using assms(2) by (auto simp: nth_append slot_def BUFFER_SIZE_def)
  have volt: "fakeVoltage ?s' = (if 1 < length bs then be16 (bs ! 1) (slot bs 2) else fakeVoltage s)"
    unfolding Listen_fakeVoltage using assms(2) by (simp add: small_count_gt_1 one two)
  have calls: "sent ?s' = sent s"
    unfolding Listen_sent by (simp add: sent_def)
  from run idle reg volt calls show thesis
    by (rule that)
qed

section \<open>The read phase\<close>

lemma AddressMatched_read:
  assumes "sized s"
  shows "HAL_I2C_AddrCallback s I2C_DIRECTION_RECEIVE =
    s\<lparr> slaveMode := MODE_TRANSMITTING,
       txBuff := (if requestedReg s = GET_VOLTAGE_REG
                  then [hi_byte (fakeVoltage s), lo_byte (fakeVoltage s)]
                  else [0xFF, 0xFF]) @ drop 2 (txBuff s),
       txBuffDataSize := 2,
       hal_calls := hal_calls s @
         [Call_Slave_Seq_Transmit_IT
            (if requestedReg s = GET_VOLTAGE_REG
             then [hi_byte (fakeVoltage s), lo_byte (fakeVoltage s)]
             else [0xFF, 0xFF]) I2C_LAST_FRAME],
       requestedReg := 0 \<rparr>"
proof -
  from assms obtain a b cs where tx: "txBuff s = a # b # cs"
    by (cases "txBuff s"; cases "tl (txBuff s)") (auto simp: sized_def BUFFER_SIZE_def)
  show ?thesis
    by (simp add: HAL_I2C_AddrCallback_def HAL_I2C_Slave_Seq_Transmit_IT_def Let_def tx tx_hi tx_lo)
qed

text \<open>
  The read phase in a state whose arrays have their declared size: it runs without a
  fault, hands one frame to the transmit operation and leaves an idle state with both
  fill counts zero; started with an empty inbound buffer, it leaves the stored value as
  it was.
\<close>

lemma read_phase_result:
  assumes "sized s"
  obtains s' where "run s read_phase = Inr s'"
    and "sent s' = sent s @
             [if requestedReg s = GET_VOLTAGE_REG
              then [hi_byte (fakeVoltage s), lo_byte (fakeVoltage s)] else [0xFF, 0xFF]]"
    and "idle s'"
    and "txBuffDataSize s' = 0"
    and "rxBuffDataSize s = 0 \<Longrightarrow> fakeVoltage s' = fakeVoltage s"
proof -
  let ?a = "HAL_I2C_AddrCallback s I2C_DIRECTION_RECEIVE"
  let ?s' = "HAL_I2C_ListenCpltCallback (?a\<lparr> txBuffDataSize := 0, rx_target := None \<rparr>)"
  have run: "run s read_phase = Inr ?s'"
    by (simp add: read_phase_def HAL_I2C_SlaveTxCpltCallback_def)
  have sent: "sent ?s' = sent s @
             [if requestedReg s = GET_VOLTAGE_REG
              then [hi_byte (fakeVoltage s), lo_byte (fakeVoltage s)] else [0xFF, 0xFF]]"
    unfolding Listen_sent AddressMatched_read [OF assms] by (simp add: sent_def)
  have "length (txBuff (?a\<lparr> txBuffDataSize := 0, rx_target := None \<rparr>)) = BUFFER_SIZE"
    unfolding AddressMatched_read [OF assms]
    using assms by (simp add: sized_def BUFFER_SIZE_def)
  then have idle: "idle ?s'"
    by (rule Listen_idle)
  have tx: "txBuffDataSize ?s' = 0"
    unfolding Listen_tx by simp
  have volt: "fakeVoltage ?s' = fakeVoltage s" if "rxBuffDataSize s = 0"
    unfolding Listen_fakeVoltage AddressMatched_read [OF assms] using that by simp
  from run sent idle tx volt show thesis
    by (rule that)
qed

text \<open>The GET transaction of register \<open>r\<close> from an idle state.\<close>

lemma GET_transaction_result:
  assumes "idle s"
  obtains s' where "run s (GET_transaction r) = Inr s'"
    and "sent s' = sent s @
             [if r = GET_VOLTAGE_REG
              then [hi_byte (fakeVoltage s), lo_byte (fakeVoltage s)] else [0xFF, 0xFF]]"
    and "idle s'"
    and "fakeVoltage s' = fakeVoltage s"
proof -
  have le: "length [r] \<le> BUFFER_SIZE" by (simp add: BUFFER_SIZE_def)
  from write_transaction_result [OF assms le]
  obtain w where w: "run s (write_transaction [r]) = Inr w" "idle w" "requestedReg w = r"
    "fakeVoltage w = fakeVoltage s" "sent w = sent s"
    by auto
  from w(2) have sz: "sized w" and empty: "rxBuffDataSize w = 0"
    by (simp_all add: idle_def)
  from read_phase_result [OF sz]
  obtain s' where s': "run w read_phase = Inr s'"
    "sent s' = sent w @
             [if requestedReg w = GET_VOLTAGE_REG
              then [hi_byte (fakeVoltage w), lo_byte (fakeVoltage w)] else [0xFF, 0xFF]]"
    "idle s'" "rxBuffDataSize w = 0 \<Longrightarrow> fakeVoltage s' = fakeVoltage w"
    by blast
  have run: "run s (GET_transaction r) = Inr s'"
    unfolding GET_transaction_def run_append_Inr [OF w(1)] by (rule s'(1))
  show thesis
    using run s'(2) s'(3) s'(4) [OF empty] unfolding w(3-5) by (rule that)
qed

text \<open>
  From an idle state, the SET transaction of \<open>v\<close> followed by the GET transaction of
  register \<open>0x08\<close> transmits exactly the two bytes of \<open>v\<close>, most significant first.
\<close>

lemma SET_then_GET_from_idle:
  assumes "idle s"
  obtains s' where "run s (SET_transaction v @ GET_transaction GET_VOLTAGE_REG) = Inr s'"
    and "sent s' = sent s @ [[hi_byte v, lo_byte v]]"
    and "fakeVoltage s' = v"
    and "idle s'"
proof -
  let ?bs = "[SET_VOLTAGE_REG, hi_byte v, lo_byte v]"
  have le: "length ?bs \<le> BUFFER_SIZE" by (simp add: BUFFER_SIZE_def)
  from write_transaction_result [OF assms le]
  obtain w where w: "run s (write_transaction ?bs) = Inr w" "idle w"
    "fakeVoltage w = be16 (hi_byte v) (slot ?bs 2)" "sent w = sent s"
    by auto
  have volt: "fakeVoltage w = v"
    unfolding w(3) by (simp add: slot_def be16_hi_lo)
  from GET_transaction_result [OF w(2), of GET_VOLTAGE_REG]
  obtain s' where s': "run w (GET_transaction GET_VOLTAGE_REG) = Inr s'"
    "sent s' = sent w @ [[hi_byte (fakeVoltage w), lo_byte (fakeVoltage w)]]"
    "idle s'" "fakeVoltage s' = fakeVoltage w"
    by auto
  have run: "run s (SET_transaction v @ GET_transaction GET_VOLTAGE_REG) = Inr s'"
    unfolding SET_transaction_def run_append_Inr [OF w(1)] by (rule s'(1))
  show thesis
    using run s'(2) s'(4) s'(3) unfolding volt w(4) by (rule that)
qed

section \<open>The claims\<close>

lemma replicate_5: "replicate 5 x = [x, x, x, x, x]"
  by (simp add: eval_nat_numeral)

lemma list_update_numeral:
  "(x # xs)[numeral n := y] = x # xs[pred_numeral n := y]"
  by (simp add: numeral_eq_Suc)

lemmas machine_defs = replicate_5 list_update_numeral
  boot_def power_on_def I2C_SLAVE_Init_def HAL_I2C_EnableListen_IT_def
  HAL_I2C_Slave_Seq_Transmit_IT_def HAL_I2C_Slave_Seq_Receive_IT_def
  HAL_I2C_AddrCallback_def HAL_I2C_ListenCpltCallback_def HAL_I2C_SlaveRxCpltCallback_def
  HAL_I2C_SlaveTxCpltCallback_def HAL_I2C_ErrorCallback_def store_byte_def
  BUFFER_SIZE_def GET_VOLTAGE_REG_def SET_VOLTAGE_REG_def

lemmas transaction_defs =
  write_transaction_def read_phase_def GET_transaction_def SET_transaction_def
  aborted_write_def hi_byte_def lo_byte_def seen_def sent_def

text \<open>
  C1. The claim: a byte arriving when the inbound buffer already holds \<^verbatim>\<open>BUFFER_SIZE\<close>
  bytes is rejected; the fill count never exceeds 5, nothing is stored past the buffer,
  and reception is not re-armed once the count reaches 5. The code at that input: after
  initialisation, an address match for writing and five bytes, the buffer is full, the
  count is 5 and a reception is pending at offset 5, one past the last slot; the sixth
  byte is stored there, outside \<^verbatim>\<open>rxBuff\<close>.
\<close>

theorem C1_sixth_byte_overflows:
  "seen rxBuff (run boot (AddressMatched I2C_DIRECTION_TRANSMIT
       # map ByteReceived [1, 2, 3, 4, 5])) = Some [1, 2, 3, 4, 5]
   \<and> seen rxBuffDataSize (run boot (AddressMatched I2C_DIRECTION_TRANSMIT
       # map ByteReceived [1, 2, 3, 4, 5])) = Some (of_nat BUFFER_SIZE)
   \<and> seen rx_target (run boot (AddressMatched I2C_DIRECTION_TRANSMIT
       # map ByteReceived [1, 2, 3, 4, 5])) = Some (Some BUFFER_SIZE)
   \<and> run boot (AddressMatched I2C_DIRECTION_TRANSMIT # map ByteReceived [1, 2, 3, 4, 5, 6])
       = Inl (StoreOutOfBounds BUFFER_SIZE 6)"
  by (simp add: machine_defs transaction_defs)

text \<open>
  C2. The claim: for every 16-bit \<open>v\<close>, the SET transaction \<open>[0x09, v >> 8, v & 0xFF]\<close>
  followed by the GET transaction of register \<open>0x08\<close> returns \<open>[v >> 8, v & 0xFF]\<close>.
  The code, for \<open>v = 1000\<close>: right after initialisation, and after a completed one-byte
  write, it transmits \<open>0x03, 0xE8\<close>; after a one-byte write that a bus error cut short, \<^verbatim>\<open>HAL_I2C_ErrorCallback\<close> has left the byte
  and the count in place, the SET is appended behind it, the value stored is \<open>0x0903\<close>
  and the GET transmits \<open>0x09, 0x03\<close>.
\<close>

theorem C2_set_get_after_aborted_write:
  "seen sent (run boot (SET_transaction 1000 @ GET_transaction GET_VOLTAGE_REG))
       = Some [[0x03, 0xE8]]
   \<and> seen sent (run boot (write_transaction [0x42]
       @ SET_transaction 1000 @ GET_transaction GET_VOLTAGE_REG)) = Some [[0x03, 0xE8]]
   \<and> seen sent (run boot (aborted_write [0x42]
       @ SET_transaction 1000 @ GET_transaction GET_VOLTAGE_REG)) = Some [[0x09, 0x03]]
   \<and> seen fakeVoltage (run boot (aborted_write [0x42]
       @ SET_transaction 1000 @ GET_transaction GET_VOLTAGE_REG)) = Some 0x0903"
  by (simp add: machine_defs transaction_defs)

text \<open>
  C3. The claim: after every completed transaction, ended by ListenComplete or by Error,
  the mode is Listening and both fill counts are zero. The code, at a write that a bus
  error ends after one byte: \<^verbatim>\<open>HAL_I2C_ErrorCallback\<close> only re-arms listening; the mode
  stays Receiving and the inbound count stays 1. The stop handler, on the same bytes,
  does reset both. With three bytes left behind by the error, the third byte of the next
  SET transaction is stored outside \<^verbatim>\<open>rxBuff\<close>. The outbound count is cleared by
  \<^verbatim>\<open>HAL_I2C_SlaveTxCpltCallback\<close> alone: zero after a read phase, 2 when the stop
  condition comes before TransferComplete.
\<close>

theorem C3_error_leaves_write_open:
  "seen slaveMode (run boot (aborted_write [0x08])) = Some MODE_RECEIVING
   \<and> seen rxBuffDataSize (run boot (aborted_write [0x08])) = Some 1
   \<and> seen hal_calls (run boot (aborted_write [0x08]))
       = Some [Call_EnableListen_IT, Call_Slave_Seq_Receive_IT 0 1 I2C_NEXT_FRAME,
               Call_Slave_Seq_Receive_IT 1 1 I2C_NEXT_FRAME, Call_EnableListen_IT]
   \<and> seen slaveMode (run boot (write_transaction [0x08])) = Some MODE_LISTENING
   \<and> seen rxBuffDataSize (run boot (write_transaction [0x08])) = Some 0
   \<and> run boot (aborted_write [0x09, 0x03, 0xE8] @ SET_transaction 2000)
       = Inl (StoreOutOfBounds BUFFER_SIZE 0xD0)
   \<and> seen txBuffDataSize (run boot read_phase) = Some 0
   \<and> seen txBuffDataSize (run boot [AddressMatched I2C_DIRECTION_RECEIVE, ListenComplete])
       = Some 2"
  by (simp add: machine_defs transaction_defs)

text \<open>
  C4, as stated, fails for a write of zero bytes: after register \<open>0x08\<close> has been
  selected, an address match for writing followed at once by the stop condition leaves
  \<^verbatim>\<open>requestedReg\<close> at \<open>0x08\<close>; it is not set from the (empty, cleared) inbound buffer.
\<close>

theorem C4_zero_bytes_counterexample:
  "seen rxBuffDataSize (run boot (write_transaction [GET_VOLTAGE_REG]
        @ [AddressMatched I2C_DIRECTION_TRANSMIT])) = Some 0
   \<and> seen rxBuff (run boot (write_transaction [GET_VOLTAGE_REG]
        @ [AddressMatched I2C_DIRECTION_TRANSMIT])) = Some [0, 0, 0, 0, 0]
   \<and> seen requestedReg (run boot (write_transaction [GET_VOLTAGE_REG]
        @ [AddressMatched I2C_DIRECTION_TRANSMIT, ListenComplete])) = Some 0x08
   \<and> \<not> (seen requestedReg (run boot (write_transaction [GET_VOLTAGE_REG]
             @ [AddressMatched I2C_DIRECTION_TRANSMIT, ListenComplete]))
        = map_option hd (seen rxBuff (run boot (write_transaction [GET_VOLTAGE_REG]
             @ [AddressMatched I2C_DIRECTION_TRANSMIT]))))"
  by (simp add: machine_defs transaction_defs)

text \<open>
  C4, amended. On ListenComplete, in every state: with a fill count of exactly one the
  transaction is a pure register-select (\<^verbatim>\<open>requestedReg\<close> becomes the first byte of the
  buffer, \<^verbatim>\<open>fakeVoltage\<close> is unchanged); with a fill count of zero neither
  \<^verbatim>\<open>requestedReg\<close> nor \<^verbatim>\<open>fakeVoltage\<close> changes; with a fill count of two or more it is a
  register-select plus payload (\<^verbatim>\<open>requestedReg\<close> becomes the first byte, \<^verbatim>\<open>fakeVoltage\<close>
  the big-endian value of buffer slots 1 and 2).
\<close>

theorem C4_listen_complete_dispatch:
  "\<exists>s'. step s ListenComplete = Inr s'
     \<and> (rxBuffDataSize s = 1 \<longrightarrow>
          requestedReg s' = rxBuff s ! 0 \<and> fakeVoltage s' = fakeVoltage s)
     \<and> (rxBuffDataSize s = 0 \<longrightarrow>
          requestedReg s' = requestedReg s \<and> fakeVoltage s' = fakeVoltage s)
     \<and> (1 < rxBuffDataSize s \<longrightarrow>
          requestedReg s' = rxBuff s ! 0
          \<and> fakeVoltage s' = be16 (rxBuff s ! 1) (rxBuff s ! 2))"
  by (auto simp: Listen_requestedReg Listen_fakeVoltage)

text \<open>The three cases at states the machine reaches: one byte, none, three.\<close>

theorem C4_listen_complete_dispatch_witness:
  "(seen rxBuffDataSize (run boot [AddressMatched I2C_DIRECTION_TRANSMIT, ByteReceived 0x08])
      = Some 1
    \<and> seen requestedReg (run boot [AddressMatched I2C_DIRECTION_TRANSMIT, ByteReceived 0x08,
         ListenComplete]) = Some 0x08
    \<and> seen fakeVoltage (run boot [AddressMatched I2C_DIRECTION_TRANSMIT, ByteReceived 0x08,
         ListenComplete]) = Some 3542)
   \<and> (seen rxBuffDataSize (run boot [AddressMatched I2C_DIRECTION_TRANSMIT]) = Some 0
    \<and> seen requestedReg (run boot [AddressMatched I2C_DIRECTION_TRANSMIT, ListenComplete])
         = Some 0
    \<and> seen fakeVoltage (run boot [AddressMatched I2C_DIRECTION_TRANSMIT, ListenComplete])
         = Some 3542)
   \<and> (seen rxBuffDataSize (run boot [AddressMatched I2C_DIRECTION_TRANSMIT, ByteReceived 0x09,
         ByteReceived 0x03, ByteReceived 0xE8]) = Some 3
    \<and> seen requestedReg (run boot [AddressMatched I2C_DIRECTION_TRANSMIT, ByteReceived 0x09,
         ByteReceived 0x03, ByteReceived 0xE8, ListenComplete]) = Some 0x09
    \<and> seen fakeVoltage (run boot [AddressMatched I2C_DIRECTION_TRANSMIT, ByteReceived 0x09,
         ByteReceived 0x03, ByteReceived 0xE8, ListenComplete]) = Some 1000)"
proof -
  have le1: "length [0x08 :: u8] \<le> BUFFER_SIZE" and le0: "length ([] :: u8 list) \<le> BUFFER_SIZE"
    and le3: "length [0x09, 0x03, 0xE8 :: u8] \<le> BUFFER_SIZE"
    by (simp_all add: BUFFER_SIZE_def)
  have volt: "fakeVoltage boot = 3542" and reg: "requestedReg boot = 0"
    by (simp_all add: boot_def I2C_SLAVE_Init_def HAL_I2C_EnableListen_IT_def)
  have val: "be16 0x03 0xE8 = 1000"
    by (simp add: be16_def)
  obtain one where one: "run boot [AddressMatched I2C_DIRECTION_TRANSMIT, ByteReceived 0x08] = Inr one"
    "rxBuffDataSize one = 1" "rxBuff one ! 0 = 0x08" "fakeVoltage one = 3542"
    using receive_bytes [OF idle_boot le1] volt by simp
  obtain none where none: "run boot [AddressMatched I2C_DIRECTION_TRANSMIT] = Inr none"
    "rxBuffDataSize none = 0" "requestedReg none = 0" "fakeVoltage none = 3542"
    using receive_bytes [OF idle_boot le0] volt reg by simp
  obtain three where three: "run boot [AddressMatched I2C_DIRECTION_TRANSMIT, ByteReceived 0x09,
         ByteReceived 0x03, ByteReceived 0xE8] = Inr three"
    "rxBuffDataSize three = 3" "rxBuff three ! 0 = 0x09" "rxBuff three ! 1 = 0x03"
    "rxBuff three ! 2 = 0xE8"
    using receive_bytes [OF idle_boot le3] by simp
  from C4_listen_complete_dispatch [of one] one(2-4)
  obtain one' where one': "step one ListenComplete = Inr one'"
    "requestedReg one' = 0x08" "fakeVoltage one' = 3542"
    by auto
  from C4_listen_complete_dispatch [of none] none(2-4)
  obtain none' where none': "step none ListenComplete = Inr none'"
    "requestedReg none' = 0" "fakeVoltage none' = 3542"
    by auto
  from C4_listen_complete_dispatch [of three] three(2-5) val
  obtain three' where three': "step three ListenComplete = Inr three'"
    "requestedReg three' = 0x09" "fakeVoltage three' = 1000"
    by auto
  have r1: "run boot [AddressMatched I2C_DIRECTION_TRANSMIT, ByteReceived 0x08, ListenComplete]
      = Inr one'"
    using run_snoc [OF one(1), of ListenComplete] one'(1) by simp
  have r0: "run boot [AddressMatched I2C_DIRECTION_TRANSMIT, ListenComplete] = Inr none'"
    using run_snoc [OF none(1), of ListenComplete] none'(1) by simp
  have r3: "run boot [AddressMatched I2C_DIRECTION_TRANSMIT, ByteReceived 0x09,
         ByteReceived 0x03, ByteReceived 0xE8, ListenComplete] = Inr three'"
    using run_snoc [OF three(1), of ListenComplete] three'(1) by simp
  show ?thesis
    unfolding r1 r0 r3 one(1) none(1) three(1)
    by (simp add: seen_def one one' none none' three three')
qed

text \<open>
  C5. At every address match with the controller reading, in a state whose arrays have
  their declared size: the mode becomes Transmitting; the response is built from the
  current \<^verbatim>\<open>requestedReg\<close> (the stored value, most significant byte first, for
  \<open>0x08\<close>; \<open>0xFF, 0xFF\<close> otherwise) into the first two slots of \<^verbatim>\<open>txBuff\<close>; the outbound
  count is 2; the one HAL operation invoked is a transmit of exactly those two bytes as
  the last frame; and \<^verbatim>\<open>requestedReg\<close> ends as 0.
\<close>

theorem C5_address_match_read:
  assumes "sized s"
  shows "\<exists>s'. step s (AddressMatched I2C_DIRECTION_RECEIVE) = Inr s'
    \<and> slaveMode s' = MODE_TRANSMITTING
    \<and> take 2 (txBuff s')
        = (if requestedReg s = GET_VOLTAGE_REG
           then [hi_byte (fakeVoltage s), lo_byte (fakeVoltage s)] else [0xFF, 0xFF])
    \<and> txBuffDataSize s' = 2
    \<and> hal_calls s' = hal_calls s @ [Call_Slave_Seq_Transmit_IT (take 2 (txBuff s')) I2C_LAST_FRAME]
    \<and> requestedReg s' = 0"
  unfolding step.simps AddressMatched_read [OF assms]
  by simp

theorem C5_address_match_read_witness:
  "seen sized (run boot (write_transaction [GET_VOLTAGE_REG])) = Some True
   \<and> seen slaveMode (run boot (write_transaction [GET_VOLTAGE_REG]
        @ [AddressMatched I2C_DIRECTION_RECEIVE])) = Some MODE_TRANSMITTING
   \<and> map_option (take 2) (seen txBuff (run boot (write_transaction [GET_VOLTAGE_REG]
        @ [AddressMatched I2C_DIRECTION_RECEIVE]))) = Some [0x0D, 0xD6]
   \<and> seen txBuffDataSize (run boot (write_transaction [GET_VOLTAGE_REG]
        @ [AddressMatched I2C_DIRECTION_RECEIVE])) = Some 2
   \<and> seen sent (run boot (write_transaction [GET_VOLTAGE_REG]
        @ [AddressMatched I2C_DIRECTION_RECEIVE])) = Some [[0x0D, 0xD6]]
   \<and> seen requestedReg (run boot (write_transaction [GET_VOLTAGE_REG]
        @ [AddressMatched I2C_DIRECTION_RECEIVE])) = Some 0"
proof -
  have le: "length [GET_VOLTAGE_REG] \<le> BUFFER_SIZE" by (simp add: BUFFER_SIZE_def)
  have boot: "fakeVoltage boot = 3542" "sent boot = []"
    by (simp_all add: sent_def boot_def power_on_def I2C_SLAVE_Init_def HAL_I2C_EnableListen_IT_def)
  have bytes: "hi_byte 3542 = 0x0D" "lo_byte 3542 = 0xD6"
    by (simp_all add: hi_byte_def lo_byte_def)
  from write_transaction_result [OF idle_boot le]
  obtain w where w: "run boot (write_transaction [GET_VOLTAGE_REG]) = Inr w" "idle w"
    "requestedReg w = GET_VOLTAGE_REG" "fakeVoltage w = 3542" "sent w = []"
    using boot by auto
  from w(2) have sz: "sized w" by (rule idle_sized)
  from C5_address_match_read [OF sz]
  obtain s' where s': "step w (AddressMatched I2C_DIRECTION_RECEIVE) = Inr s'"
    "slaveMode s' = MODE_TRANSMITTING" "take 2 (txBuff s') = [0x0D, 0xD6]"
    "txBuffDataSize s' = 2"
    "hal_calls s' = hal_calls w @ [Call_Slave_Seq_Transmit_IT (take 2 (txBuff s')) I2C_LAST_FRAME]"
    "requestedReg s' = 0"
    unfolding w(3,4) bytes by auto
  have sent: "sent s' = [[0x0D, 0xD6]]"
    using s'(3,5) w(5) by (simp add: sent_def)
  have run: "run boot (write_transaction [GET_VOLTAGE_REG] @ [AddressMatched I2C_DIRECTION_RECEIVE])
      = Inr s'"
    unfolding run_snoc [OF w(1)] by (rule s'(1))
  show ?thesis
    unfolding run w(1) by (simp add: seen_def sz s' sent)
qed

text \<open>
  C6. The claim: every completed write of at least two bytes whose first byte is the SET
  register \<open>0x09\<close> sets \<^verbatim>\<open>fakeVoltage\<close> to the big-endian value of its second and third
  bytes and \<^verbatim>\<open>requestedReg\<close> to its first byte. The code, on the write
  \<open>[0x09, 0x03, 0xE8]\<close>: right after initialisation, and after a completed write, it
  stores 1000 and selects \<open>0x09\<close>; after a one-byte write that a bus error cut short, \<^verbatim>\<open>HAL_I2C_ErrorCallback\<close> has left
  that byte and the count in place, the write is appended behind it, the value stored is
  \<open>0x0903\<close> and the register selected is the stale byte \<open>0x42\<close>.
\<close>

theorem C6_set_write_after_aborted_write:
  "seen fakeVoltage (run boot (write_transaction [0x09, 0x03, 0xE8])) = Some 1000
   \<and> seen requestedReg (run boot (write_transaction [0x09, 0x03, 0xE8])) = Some 0x09
   \<and> seen fakeVoltage (run boot (write_transaction [0x42, 0x07, 0xD0]
       @ write_transaction [0x09, 0x03, 0xE8])) = Some 1000
   \<and> seen requestedReg (run boot (write_transaction [0x42, 0x07, 0xD0]
       @ write_transaction [0x09, 0x03, 0xE8])) = Some 0x09
   \<and> seen fakeVoltage (run boot (aborted_write [0x42] @ write_transaction [0x09, 0x03, 0xE8]))
       = Some 0x0903
   \<and> seen requestedReg (run boot (aborted_write [0x42] @ write_transaction [0x09, 0x03, 0xE8]))
       = Some 0x42"
  by (simp add: machine_defs transaction_defs)

text \<open>
  C7. In every state whose arrays have their declared size and whose \<^verbatim>\<open>requestedReg\<close> is
  not \<open>0x08\<close>, whatever \<^verbatim>\<open>fakeVoltage\<close> holds, the read phase hands exactly one frame to
  the transmit operation: the two bytes \<open>0xFF, 0xFF\<close>, as the last frame.
\<close>

theorem C7_unknown_register_read:
  assumes "sized s" and "requestedReg s \<noteq> GET_VOLTAGE_REG"
  shows "(\<exists>s'. step s (AddressMatched I2C_DIRECTION_RECEIVE) = Inr s'
           \<and> hal_calls s' = hal_calls s @ [Call_Slave_Seq_Transmit_IT [0xFF, 0xFF] I2C_LAST_FRAME])
    \<and> (\<exists>s'. run s read_phase = Inr s'
           \<and> transmitted (hal_calls s') = transmitted (hal_calls s) @ [[0xFF, 0xFF]])"
proof -
  from read_phase_result [OF assms(1)]
  obtain s' where "run s read_phase = Inr s'"
    "sent s' = sent s @ [if requestedReg s = GET_VOLTAGE_REG
              then [hi_byte (fakeVoltage s), lo_byte (fakeVoltage s)] else [0xFF, 0xFF]]"
    by blast
  with assms(2) have "\<exists>s'. run s read_phase = Inr s'
      \<and> transmitted (hal_calls s') = transmitted (hal_calls s) @ [[0xFF, 0xFF]]"
    by (auto simp: sent_def)
  moreover have "\<exists>s'. step s (AddressMatched I2C_DIRECTION_RECEIVE) = Inr s'
      \<and> hal_calls s' = hal_calls s @ [Call_Slave_Seq_Transmit_IT [0xFF, 0xFF] I2C_LAST_FRAME]"
    unfolding step.simps AddressMatched_read [OF assms(1)] using assms(2) by simp
  ultimately show ?thesis by simp
qed

theorem C7_unknown_register_read_witness:
  "seen sized (run boot (SET_transaction 1000)) = Some True
   \<and> seen requestedReg (run boot (SET_transaction 1000)) = Some 0x09
   \<and> seen fakeVoltage (run boot (SET_transaction 1000)) = Some 1000
   \<and> seen sent (run boot (SET_transaction 1000 @ read_phase)) = Some [[0xFF, 0xFF]]"
proof -
  let ?bs = "[SET_VOLTAGE_REG, hi_byte 1000, lo_byte 1000]"
  have le: "length ?bs \<le> BUFFER_SIZE" by (simp add: BUFFER_SIZE_def)
  have boot: "sent boot = []"
    by (simp add: sent_def boot_def power_on_def I2C_SLAVE_Init_def HAL_I2C_EnableListen_IT_def)
  have val: "be16 (hi_byte 1000) (slot ?bs 2) = 1000"
    by (simp add: slot_def be16_hi_lo)
  from write_transaction_result [OF idle_boot le]
  obtain w where w: "run boot (SET_transaction 1000) = Inr w" "idle w"
    "requestedReg w = 0x09" "fakeVoltage w = 1000" "sent w = []"
    unfolding SET_transaction_def using boot val by (auto simp: SET_VOLTAGE_REG_def)
  from w(2) have sz: "sized w" by (rule idle_sized)
  from w(3) have ne: "requestedReg w \<noteq> GET_VOLTAGE_REG"
    by (simp add: GET_VOLTAGE_REG_def)
  from C7_unknown_register_read [OF sz ne]
  obtain s' where s': "run w read_phase = Inr s'"
    "transmitted (hal_calls s') = transmitted (hal_calls w) @ [[0xFF, 0xFF]]"
    by blast
  have run: "run boot (SET_transaction 1000 @ read_phase) = Inr s'"
    unfolding run_append_Inr [OF w(1)] by (rule s'(1))
  show ?thesis
    unfolding run w(1) using s'(2) w(5) by (simp add: seen_def sent_def sz w)
qed

text \<open>
  C8. The claim: every completed write carrying exactly one byte sets \<^verbatim>\<open>requestedReg\<close> to
  that byte and leaves \<^verbatim>\<open>fakeVoltage\<close> unchanged. The code, on the write \<open>[0x08]\<close>: right
  after initialisation it selects \<open>0x08\<close> and the value stays 3542, and after a completed
  SET of 1000 it selects \<open>0x08\<close> and the value stays 1000; after a one-byte
  write that a bus error cut short, \<^verbatim>\<open>HAL_I2C_ErrorCallback\<close> has left that byte and the
  count in place, the stop handler finds a count of two, selects the stale byte \<open>0x42\<close>
  and overwrites the value with \<open>0x0800\<close>.
\<close>

theorem C8_one_byte_write_after_aborted_write:
  "seen requestedReg (run boot (write_transaction [0x08])) = Some 0x08
   \<and> seen fakeVoltage (run boot (write_transaction [0x08])) = Some 3542
   \<and> seen requestedReg (run boot (write_transaction [0x09, 0x03, 0xE8]
       @ write_transaction [0x08])) = Some 0x08
   \<and> seen fakeVoltage (run boot (write_transaction [0x09, 0x03, 0xE8]
       @ write_transaction [0x08])) = Some 1000
   \<and> seen requestedReg (run boot (aborted_write [0x42] @ write_transaction [0x08])) = Some 0x42
   \<and> seen fakeVoltage (run boot (aborted_write [0x42] @ write_transaction [0x08]))
       = Some 0x0800"
  by (simp add: machine_defs transaction_defs)

text \<open>
  C9. The claim: after initialisation and with no SET transaction in between, the GET
  transaction of register \<open>0x08\<close> returns the initial value 3542 as \<open>0x0D, 0xD6\<close>. The
  code: right after initialisation it does; after a one-byte write that a bus error cut
  short (no SET), \<^verbatim>\<open>HAL_I2C_ErrorCallback\<close> has left that byte and the count in place, the
  register-select of the GET is taken for a payload, the value becomes \<open>0x0800\<close>, the
  register selected is the stale byte \<open>0x42\<close> and the GET transmits \<open>0xFF, 0xFF\<close>.
\<close>

theorem C9_get_after_aborted_write:
  "seen fakeVoltage (Inr boot) = Some 3542
   \<and> seen sent (run boot (GET_transaction GET_VOLTAGE_REG)) = Some [[0x0D, 0xD6]]
   \<and> seen sent (run boot (aborted_write [0x42] @ GET_transaction GET_VOLTAGE_REG))
       = Some [[0xFF, 0xFF]]
   \<and> seen fakeVoltage (run boot (aborted_write [0x42] @ GET_transaction GET_VOLTAGE_REG))
       = Some 0x0800"
  by (simp add: machine_defs transaction_defs)

text \<open>
  C10. The claim: every completed write of two or more bytes overwrites \<^verbatim>\<open>fakeVoltage\<close>
  with the big-endian value of its second and third bytes whatever its first byte is,
  and with exactly two bytes the low byte stored is 0. The code, on the two-byte write
  \<open>[0x42, 0x12]\<close> to an unrecognised register: right after initialisation, and after
  a completed three-byte write (whose third byte \<^verbatim>\<open>memset\<close> has cleared), it stores
  \<open>0x1200\<close>; after a one-byte write that a bus error cut short,
  \<^verbatim>\<open>HAL_I2C_ErrorCallback\<close> has left that byte and the count in place, the write is
  appended behind it and the value stored is \<open>0x4212\<close>, its low byte \<open>0x12\<close>.
\<close>

theorem C10_payload_after_aborted_write:
  "seen fakeVoltage (run boot (write_transaction [0x42, 0x12])) = Some 0x1200
   \<and> seen fakeVoltage (run boot (write_transaction [0x09, 0x03, 0xE8]
       @ write_transaction [0x42, 0x12])) = Some 0x1200
   \<and> seen fakeVoltage (run boot (aborted_write [0x55] @ write_transaction [0x42, 0x12]))
       = Some 0x4212
   \<and> map_option lo_byte (seen fakeVoltage
        (run boot (aborted_write [0x55] @ write_transaction [0x42, 0x12]))) = Some 0x12"
  by (simp add: machine_defs transaction_defs)

end
